theory Spec2Isabelle
  imports Complex_Main "HOL-Library.Word" "HOL-Library.Sublist"
begin

section \<open>Request documents\<close>

text \<open>
  The handlers of \<^verbatim>\<open>main.go\<close> never parse the request body into Go values: they
  read and edit it through the path functions of \<^verbatim>\<open>gjson\<close> and \<^verbatim>\<open>sjson\<close>. Those two
  libraries, \<^verbatim>\<open>gin\<close> and \<^verbatim>\<open>net/http\<close> are not part of the repository; they are
  embedded here by their behaviour on documents of the completion schemas: a JSON
  object with unique member names whose \<^verbatim>\<open>messages\<close> member, when present, is an
  array of objects. The order of the members and the layout of the text are not
  modelled.

  A JSON value is a scalar, or an array or object that the handlers never look into and
  that is kept as its text (\<open>JRaw\<close>). A number is either an integer literal of any
  size (\<open>JNum\<close>, an optional minus sign and digits, not \<^verbatim>\<open>-0\<close>), or any other
  number literal (\<open>JFloat\<close>, with a fraction or an exponent): that one is kept as
  gjson's \<^verbatim>\<open>Result\<close> has it, its text \<^verbatim>\<open>Raw\<close> and the \<^verbatim>\<open>float64\<close> value \<^verbatim>\<open>Num\<close>
  parsed from it, a rational number.
\<close>

type_synonym int64 = "64 word"

datatype json =
  JNull | JBool bool | JNum int | JFloat string rat | JStr string | JRaw string

text \<open>A message object: its members by name (names are unique, order is not modelled).\<close>

type_synonym message = "string \<rightharpoonup> json"

text \<open>
  A request document is a JSON object. Its \<^verbatim>\<open>messages\<close> member is absent or an array
  of message objects; \<open>members\<close> holds every other member by name.
\<close>

record document =
  messages :: "message list option"
  members :: "string \<rightharpoonup> json"

subsection \<open>gjson: reading\<close>

text \<open>\<^verbatim>\<open>gjson.GetBytes(body, key)\<close> for a member other than \<^verbatim>\<open>messages\<close>; \<open>None\<close> is
  the result that does not exist.\<close>

definition gjson_GetBytes :: "document \<Rightarrow> string \<Rightarrow> json option" where
  "gjson_GetBytes body key = members body key"

text \<open>\<^verbatim>\<open>Result.Exists()\<close>: a member whose value is \<^verbatim>\<open>null\<close> exists.\<close>

definition gjson_Exists :: "json option \<Rightarrow> bool" where
  "gjson_Exists r = (r \<noteq> None)"

text \<open>\<^verbatim>\<open>gjson.GetBytes(body, "messages").Array()\<close>: a result that does not exist gives
  the empty slice.\<close>

definition gjson_messages_Array :: "document \<Rightarrow> message list" where
  "gjson_messages_Array body = (case messages body of None \<Rightarrow> [] | Some ms \<Rightarrow> ms)"

text \<open>\<^verbatim>\<open>Result.Get(key)\<close> on a message object.\<close>

definition gjson_Get :: "message \<Rightarrow> string \<Rightarrow> json option" where
  "gjson_Get m key = m key"

text \<open>Decimal text of an integer, as it stands in the document.\<close>

fun digits_of :: "nat \<Rightarrow> string" where
  "digits_of n =
     (if n < 10 then [char_of (48 + n)]
      else digits_of (n div 10) @ [char_of (48 + n mod 10)])"

declare digits_of.simps [simp del]

definition Itoa :: "int \<Rightarrow> string" where
  "Itoa i = (if i < 0 then CHR ''-'' # digits_of (nat (- i)) else digits_of (nat i))"

text \<open>\<^verbatim>\<open>Result.String()\<close>: the string itself, the text of a number, boolean, array or
  object, and the empty string for \<^verbatim>\<open>null\<close> and for a result that does not exist.\<close>

fun gjson_String :: "json option \<Rightarrow> string" where
  "gjson_String None = []"
| "gjson_String (Some JNull) = []"
| "gjson_String (Some (JBool b)) = (if b then ''true'' else ''false'')"
| "gjson_String (Some (JNum n)) = Itoa n"
| "gjson_String (Some (JFloat raw f)) = raw"
| "gjson_String (Some (JStr s)) = s"
| "gjson_String (Some (JRaw t)) = t"

text \<open>\<^verbatim>\<open>parseInt\<close> of gjson: an optional minus sign and decimal digits, accumulated in
  an \<open>int64\<close>; anything else fails.\<close>

fun parse_digits :: "int64 \<Rightarrow> string \<Rightarrow> int64 option" where
  "parse_digits n [] = Some n"
| "parse_digits n (c # cs) =
     (if (48::nat) \<le> of_char c \<and> of_char c \<le> (57::nat)
      then parse_digits (n * 10 + (of_char c - 48)) cs
      else None)"

definition parseInt :: "string \<Rightarrow> int64 option" where
  "parseInt s =
     (case s of
        [] \<Rightarrow> None
      | c # cs \<Rightarrow>
          if c = CHR ''-''
          then (if cs = [] then None else map_option (\<lambda>n. n * (- 1)) (parse_digits 0 cs))
          else parse_digits 0 s)"

text \<open>Go's conversion \<^verbatim>\<open>int64(f)\<close> of a \<^verbatim>\<open>float64\<close>: the fraction is dropped (towards
  zero). For a value outside the \<open>int64\<close> range the result depends on the machine;
  the one of amd64 is taken.\<close>

definition towards_zero :: "rat \<Rightarrow> int" where
  "towards_zero f = (if 0 \<le> f then \<lfloor>f\<rfloor> else \<lceil>f\<rceil>)"

definition float_to_int64 :: "rat \<Rightarrow> int64" where
  "float_to_int64 f =
     (if - 9223372036854775808 \<le> f \<and> f < 9223372036854775808 then of_int (towards_zero f)
      else - 9223372036854775808)"

text \<open>\<^verbatim>\<open>Result.Int()\<close>. A number up to \<open>2\<^sup>5\<^sup>3 - 1\<close> in absolute value is converted
  from its \<^verbatim>\<open>float64\<close> value, which drops a fraction; a larger one goes through
  \<^verbatim>\<open>parseInt\<close> of its text, which wraps around, and through the conversion of the
  \<^verbatim>\<open>float64\<close> value when that fails. \<^verbatim>\<open>true\<close> is 1; a string is parsed, 0 when
  that fails; everything else, and a result that does not exist, is 0.\<close>

fun gjson_Int :: "json option \<Rightarrow> int64" where
  "gjson_Int (Some (JNum n)) =
     (if - 9007199254740991 \<le> n \<and> n \<le> 9007199254740991 then of_int n
      else (case parseInt (Itoa n) of Some i \<Rightarrow> i | None \<Rightarrow> float_to_int64 (of_int n)))"
| "gjson_Int (Some (JFloat raw f)) =
     (if - 9007199254740991 \<le> f \<and> f \<le> 9007199254740991 then of_int (towards_zero f)
      else (case parseInt raw of Some i \<Rightarrow> i | None \<Rightarrow> float_to_int64 f))"
| "gjson_Int (Some (JBool True)) = 1"
| "gjson_Int (Some (JStr s)) = (case parseInt s of Some n \<Rightarrow> n | None \<Rightarrow> 0)"
| "gjson_Int _ = 0"

subsection \<open>sjson: writing\<close>

text \<open>\<^verbatim>\<open>sjson.SetBytes(body, key, value)\<close> for a member other than \<^verbatim>\<open>messages\<close>: the
  member is replaced, or added when it is absent.\<close>

definition sjson_SetBytes :: "document \<Rightarrow> string \<Rightarrow> json \<Rightarrow> document" where
  "sjson_SetBytes body key v = body\<lparr>members := (members body)(key \<mapsto> v)\<rparr>"

text \<open>\<^verbatim>\<open>sjson.DeleteBytes(body, key)\<close>: the member is removed; nothing changes when it
  is absent.\<close>

definition sjson_DeleteBytes :: "document \<Rightarrow> string \<Rightarrow> document" where
  "sjson_DeleteBytes body key = body\<lparr>members := (members body)(key := None)\<rparr>"

text \<open>\<^verbatim>\<open>sjson.SetBytes(body, "messages.<i>.content", s)\<close> for the index of a message
  of the array: that message's \<^verbatim>\<open>content\<close> becomes the string \<open>s\<close>. The handler builds
  the path from the length of the same array; paths that would create elements are
  not modelled (the document is returned as it is).\<close>

definition sjson_SetBytes_content :: "document \<Rightarrow> nat \<Rightarrow> string \<Rightarrow> document" where
  "sjson_SetBytes_content body i s =
     (case messages body of
        None \<Rightarrow> body
      | Some ms \<Rightarrow>
          if i < length ms
          then body\<lparr>messages := Some (ms[i := (ms ! i)(''content'' \<mapsto> JStr s)])\<rparr>
          else body)"

subsection \<open>strings\<close>

text \<open>\<^verbatim>\<open>strings.Contains(s, substr)\<close>.\<close>

fun strings_Contains :: "string \<Rightarrow> string \<Rightarrow> bool" where
  "strings_Contains [] substr = (substr = [])"
| "strings_Contains (c # cs) substr = (prefix substr (c # cs) \<or> strings_Contains cs substr)"

section \<open>Configuration\<close>

text \<open>The \<^verbatim>\<open>config\<close> struct. Go's \<^verbatim>\<open>int\<close> is taken as 64 bits wide.\<close>

record config =
  Bind :: string
  ProxyUrl :: string
  Timeout :: int64
  CodexApiBase :: string
  CodexApiKey :: string
  CodexApiOrganization :: string
  CodexApiProject :: string
  ChatApiBase :: string
  ChatApiKey :: string
  ChatApiOrganization :: string
  ChatApiProject :: string
  ChatModelDefault :: string
  ChatModelMap :: "string \<rightharpoonup> string"
  ChatMaxTokens :: int64
  ChatLocale :: string

definition InstructModel :: string where
  "InstructModel = ''deepseek-coder''"

section \<open>The chat rewrite\<close>

text \<open>A Go runtime panic: index out of range, with the index and the length.\<close>

datatype panic = IndexOutOfRange int nat

text \<open>Lines 190 to 197 of \<^verbatim>\<open>completions\<close>: the model is looked up in the map, the
  default is taken when it is not a key, and the result is written back.\<close>

definition map_model :: "config \<Rightarrow> string \<Rightarrow> string" where
  "map_model cfg model =
     (case ChatModelMap cfg model of Some mapped \<Rightarrow> mapped | None \<Rightarrow> ChatModelDefault cfg)"

definition rewrite_model :: "config \<Rightarrow> document \<Rightarrow> document" where
  "rewrite_model cfg body =
     (let model = gjson_String (gjson_GetBytes body ''model'')
      in sjson_SetBytes body ''model'' (JStr (map_model cfg model)))"

text \<open>Lines 200 to 210: the locale instruction. \<^verbatim>\<open>messages[lastIndex]\<close> panics when
  the slice is empty.\<close>

definition locale_phrase :: string where
  "locale_phrase = ''Respond in the following locale''"

definition locale_suffix :: "config \<Rightarrow> string" where
  "locale_suffix cfg =
     (let locale = (if ChatLocale cfg = [] then ''zh_CN'' else ChatLocale cfg)
      in ''Respond in the following locale: '' @ locale @ ''.'')"

definition rewrite_locale :: "config \<Rightarrow> document \<Rightarrow> panic + document" where
  "rewrite_locale cfg body =
     (if \<not> gjson_Exists (gjson_GetBytes body ''function_call'') then
        (let msgs = gjson_messages_Array body;
             lastIndex = int (length msgs) - 1
         in if lastIndex < 0 then Inl (IndexOutOfRange lastIndex (length msgs))
            else
              (let content = gjson_String (gjson_Get (msgs ! nat lastIndex) ''content'')
               in if \<not> strings_Contains content locale_phrase
                  then Inr (sjson_SetBytes_content body (nat lastIndex)
                              (content @ locale_suffix cfg))
                  else Inr body))
      else Inr body)"

text \<open>Lines 212 to 214.\<close>

definition rewrite_intent :: "document \<Rightarrow> document" where
  "rewrite_intent body =
     sjson_DeleteBytes
       (sjson_DeleteBytes (sjson_DeleteBytes body ''intent'') ''intent_threshold'')
       ''intent_content''"

text \<open>Lines 216 to 218: the comparison is between signed integers, and the ceiling is
  written as an integer literal.\<close>

definition rewrite_max_tokens :: "config \<Rightarrow> document \<Rightarrow> document" where
  "rewrite_max_tokens cfg body =
     (if sint (gjson_Int (gjson_GetBytes body ''max_tokens'')) > sint (ChatMaxTokens cfg)
      then sjson_SetBytes body ''max_tokens'' (JNum (sint (ChatMaxTokens cfg)))
      else body)"

text \<open>The whole rewrite of the chat handler, lines 190 to 218.\<close>

definition completions_rewrite :: "config \<Rightarrow> document \<Rightarrow> panic + document" where
  "completions_rewrite cfg body =
     (case rewrite_locale cfg (rewrite_model cfg body) of
        Inl p \<Rightarrow> Inl p
      | Inr body' \<Rightarrow> Inr (rewrite_max_tokens cfg (rewrite_intent body')))"

section \<open>The handlers and their surroundings\<close>

text \<open>An \<^verbatim>\<open>error\<close> value, as far as the handlers look at it: whether
  \<^verbatim>\<open>errors.Is(err, context.Canceled)\<close> holds, and the text of \<^verbatim>\<open>err.Error()\<close>.\<close>

record go_error =
  is_Canceled :: bool
  Error :: string

text \<open>The upstream's answer: the status code, \<^verbatim>\<open>resp.Header.Get("Content-Type")\<close>
  (empty when the header is absent) and the body as \<^verbatim>\<open>io.ReadAll\<close> and \<^verbatim>\<open>io.Copy\<close>
  read it.\<close>

record response =
  StatusCode :: int
  ContentType :: string
  Body :: string

text \<open>The outbound request: URL, headers and body. The method is always POST.\<close>

record request =
  URL :: string
  Header :: "string \<rightharpoonup> string"
  req_body :: document

text \<open>What the handler's calls into its surroundings return for one inbound request:
  \<^verbatim>\<open>ctx.Err() != nil\<close> after the delay, \<^verbatim>\<open>io.ReadAll(c.Request.Body)\<close>, the error of
  \<^verbatim>\<open>http.NewRequestWithContext\<close> for a URL, and \<^verbatim>\<open>s.client.Do\<close>.\<close>

record world =
  ctx_Err :: bool
  ReadAll :: "go_error + document"
  NewRequestWithContext :: "string \<Rightarrow> go_error option"
  client_Do :: "request \<Rightarrow> go_error + response"

text \<open>The part of \<^verbatim>\<open>gin.Context\<close> the handlers write: the status, the headers set
  on the response writer, the body written, and the abort flag. The headers are those
  of the writer's map: \<^verbatim>\<open>net/http\<close> still leaves out the content type of a 304 and
  adds one of its own when none is set and a body is written.\<close>

record gin_context =
  status :: int
  headers :: "string \<rightharpoonup> string"
  written :: string
  aborted :: bool

definition c_Header :: "gin_context \<Rightarrow> string \<Rightarrow> string \<Rightarrow> gin_context" where
  "c_Header c key v =
     (if v = [] then c\<lparr>headers := (headers c)(key := None)\<rparr>
      else c\<lparr>headers := (headers c)(key \<mapsto> v)\<rparr>)"

definition c_Status :: "gin_context \<Rightarrow> int \<Rightarrow> gin_context" where
  "c_Status c code = c\<lparr>status := code\<rparr>"

text \<open>\<^verbatim>\<open>bodyAllowedForStatus\<close> of gin and of \<^verbatim>\<open>net/http\<close>: a response with a status
  1xx, 204 or 304 has no body, and what is written to it is dropped.\<close>

definition bodyAllowedForStatus :: "int \<Rightarrow> bool" where
  "bodyAllowedForStatus code =
     (if 100 \<le> code \<and> code \<le> 199 then False
      else if code = 204 then False
      else if code = 304 then False
      else True)"

text \<open>\<^verbatim>\<open>c.String(code, text)\<close> renders through \<^verbatim>\<open>c.Render\<close>: the status, the
  plain-text content type unless one is already set, and the text written to the body
  when the status allows a body.\<close>

definition c_String :: "gin_context \<Rightarrow> int \<Rightarrow> string \<Rightarrow> gin_context" where
  "c_String c code txt =
     (let c1 = c_Status c code;
          c2 = (if headers c1 ''Content-Type'' = None
                then c1\<lparr>headers := (headers c1)(''Content-Type'' \<mapsto> ''text/plain; charset=utf-8'')\<rparr>
                else c1)
      in if bodyAllowedForStatus code then c2\<lparr>written := written c2 @ txt\<rparr> else c2)"

definition c_Abort :: "gin_context \<Rightarrow> gin_context" where
  "c_Abort c = c\<lparr>aborted := True\<rparr>"

definition c_AbortWithStatus :: "gin_context \<Rightarrow> int \<Rightarrow> gin_context" where
  "c_AbortWithStatus c code = c_Abort (c_Status c code)"

text \<open>\<^verbatim>\<open>io.Copy(c.Writer, resp.Body)\<close>: the writer takes the bytes when the status
  set before allows a body; the handlers ignore the error it returns otherwise.\<close>

definition io_Copy :: "gin_context \<Rightarrow> string \<Rightarrow> gin_context" where
  "io_Copy c b = (if bodyAllowedForStatus (status c) then c\<lparr>written := written c @ b\<rparr> else c)"

text \<open>What a handler leaves behind: the response, the lines given to \<^verbatim>\<open>log.Println\<close>
  (without the final newline), and the requests sent upstream.\<close>

record outcome =
  gin :: gin_context
  logs :: "string list"
  sent :: "request list"

definition StatusOK :: int where "StatusOK = 200"
definition StatusBadRequest :: int where "StatusBadRequest = 400"
definition StatusRequestTimeout :: int where "StatusRequestTimeout = 408"
definition StatusInternalServerError :: int where "StatusInternalServerError = 500"

text \<open>\<^verbatim>\<open>abortCodex\<close>.\<close>

definition sentinel :: string where
  "sentinel = ''data: [DONE]'' @ [CHR 0x0A]"

definition abortCodex :: "gin_context \<Rightarrow> int \<Rightarrow> gin_context" where
  "abortCodex c code =
     c_Abort (c_String (c_Header c ''Content-Type'' ''text/event-stream'') code sentinel)"

text \<open>The headers both handlers set on the outbound request.\<close>

definition set_headers :: "string \<Rightarrow> string \<Rightarrow> string \<Rightarrow> string \<rightharpoonup> string" where
  "set_headers key organization project =
     (let h0 = [''Content-Type'' \<mapsto> ''application/json'',
                ''Authorization'' \<mapsto> ''Bearer '' @ key];
          h1 = (if organization \<noteq> [] then h0(''OpenAI-Organization'' \<mapsto> organization) else h0)
      in (if project \<noteq> [] then h1(''OpenAI-Project'' \<mapsto> project) else h1))"

text \<open>Lines 221 to 236: the request the chat handler builds for a rewritten body.\<close>

definition chat_request :: "config \<Rightarrow> document \<Rightarrow> request" where
  "chat_request cfg body =
     \<lparr>URL = ChatApiBase cfg @ ''/chat/completions'',
      Header = set_headers (ChatApiKey cfg) (ChatApiOrganization cfg) (ChatApiProject cfg),
      req_body = body\<rparr>"

text \<open>Lines 295 to 310: the request the codex handler builds.\<close>

definition codex_request :: "config \<Rightarrow> document \<Rightarrow> request" where
  "codex_request cfg body =
     \<lparr>URL = CodexApiBase cfg @ ''/chat/completions'',
      Header = set_headers (CodexApiKey cfg) (CodexApiOrganization cfg) (CodexApiProject cfg),
      req_body = body\<rparr>"

text \<open>\<^verbatim>\<open>completions\<close>, the chat handler. A panic of the rewrite leaves the handler.\<close>

definition completions :: "config \<Rightarrow> world \<Rightarrow> gin_context \<Rightarrow> panic + outcome" where
  "completions cfg w c =
     (case ReadAll w of
        Inl err \<Rightarrow>
          Inr \<lparr>gin = c_AbortWithStatus c StatusBadRequest, logs = [], sent = []\<rparr>
      | Inr body0 \<Rightarrow>
          (case completions_rewrite cfg body0 of
             Inl p \<Rightarrow> Inl p
           | Inr body \<Rightarrow>
               (let proxyUrl = ChatApiBase cfg @ ''/chat/completions'' in
                case NewRequestWithContext w proxyUrl of
                  Some err \<Rightarrow>
                    Inr \<lparr>gin = c_AbortWithStatus c StatusInternalServerError,
                         logs = [], sent = []\<rparr>
                | None \<Rightarrow>
                    (let req = chat_request cfg body in
                     case client_Do w req of
                       Inl err \<Rightarrow>
                         if is_Canceled err
                         then Inr \<lparr>gin = c_AbortWithStatus c StatusRequestTimeout,
                                   logs = [], sent = [req]\<rparr>
                         else Inr \<lparr>gin = c_AbortWithStatus c StatusInternalServerError,
                                   logs = [''request conversation failed: '' @ Error err],
                                   sent = [req]\<rparr>
                     | Inr resp \<Rightarrow>
                         (let l = (if StatusCode resp \<noteq> StatusOK
                                   then [''request completions failed: '' @ Body resp]
                                   else []);
                              c1 = c_Status c (StatusCode resp);
                              contentType = ContentType resp;
                              c2 = (if contentType \<noteq> []
                                    then c_Header c1 ''Content-Type'' contentType else c1)
                          in Inr \<lparr>gin = io_Copy c2 (Body resp), logs = l, sent = [req]\<rparr>)))))"

text \<open>Lines 290 to 292 of \<^verbatim>\<open>codeCompletions\<close>.\<close>

definition codeCompletions_rewrite :: "document \<Rightarrow> document" where
  "codeCompletions_rewrite body =
     sjson_SetBytes (sjson_DeleteBytes (sjson_DeleteBytes body ''extra'') ''nwo'')
       ''model'' (JStr InstructModel)"

text \<open>\<^verbatim>\<open>codeCompletions\<close>, the codex handler. The delay itself is not modelled.\<close>

definition codeCompletions :: "config \<Rightarrow> world \<Rightarrow> gin_context \<Rightarrow> outcome" where
  "codeCompletions cfg w c =
     (if ctx_Err w
      then \<lparr>gin = abortCodex c StatusRequestTimeout, logs = [], sent = []\<rparr>
      else
        (case ReadAll w of
           Inl err \<Rightarrow> \<lparr>gin = abortCodex c StatusBadRequest, logs = [], sent = []\<rparr>
         | Inr body0 \<Rightarrow>
             (let body = codeCompletions_rewrite body0;
                  proxyUrl = CodexApiBase cfg @ ''/chat/completions'' in
              case NewRequestWithContext w proxyUrl of
                Some err \<Rightarrow>
                  \<lparr>gin = abortCodex c StatusInternalServerError, logs = [], sent = []\<rparr>
              | None \<Rightarrow>
                  (let req = codex_request cfg body in
                   case client_Do w req of
                     Inl err \<Rightarrow>
                       if is_Canceled err
                       then \<lparr>gin = abortCodex c StatusRequestTimeout, logs = [], sent = [req]\<rparr>
                       else \<lparr>gin = abortCodex c StatusInternalServerError,
                              logs = [''request completions failed: '' @ Error err],
                              sent = [req]\<rparr>
                   | Inr resp \<Rightarrow>
                       if StatusCode resp \<noteq> StatusOK
                       then \<lparr>gin = abortCodex c (StatusCode resp),
                              logs = [''request completions failed: '' @ Body resp],
                              sent = [req]\<rparr>
                       else
                         (let c1 = c_Status c (StatusCode resp);
                              contentType = ContentType resp;
                              c2 = (if contentType \<noteq> []
                                    then c_Header c1 ''Content-Type'' contentType else c1)
                          in \<lparr>gin = io_Copy c2 (Body resp), logs = [], sent = [req]\<rparr>)))))"

text \<open>The context gin hands to a handler: status 200, nothing written.\<close>

definition new_context :: gin_context where
  "new_context = \<lparr>status = 200, headers = Map.empty, written = [], aborted = False\<rparr>"

section \<open>Example inputs\<close>

text \<open>A configuration with an empty model map, the default model
  \<^verbatim>\<open>deepseek-coder\<close>, the ceiling 4096 and the locale \<^verbatim>\<open>zh_CN\<close>.\<close>

definition example_config :: config where
  "example_config =
     \<lparr>Bind = ''127.0.0.1:8181'', ProxyUrl = [], Timeout = 600,
      CodexApiBase = ''https://api.deepseek.com/beta/v1'', CodexApiKey = ''sk-codex'',
      CodexApiOrganization = [], CodexApiProject = [],
      ChatApiBase = ''https://api.deepseek.com/v1'', ChatApiKey = ''sk-chat'',
      ChatApiOrganization = [], ChatApiProject = [],
      ChatModelDefault = ''deepseek-coder'', ChatModelMap = Map.empty,
      ChatMaxTokens = 4096, ChatLocale = ''zh_CN''\<rparr>"

text \<open>The document \<^verbatim>\<open>{"model":"gpt-4","messages":[{"content":"hi"}]}\<close>.\<close>

definition example_chat :: document where
  "example_chat =
     \<lparr>messages = Some [[''content'' \<mapsto> JStr ''hi'']],
      members = [''model'' \<mapsto> JStr ''gpt-4'']\<rparr>"

text \<open>Surroundings in which the body is read as the given document, the request is
  built and the upstream gives the given answer.\<close>

definition answering :: "document \<Rightarrow> go_error + response \<Rightarrow> world" where
  "answering body r =
     \<lparr>ctx_Err = False, ReadAll = Inr body, NewRequestWithContext = (\<lambda>u. None),
      client_Do = (\<lambda>req. r)\<rparr>"

text \<open>A codex document that carries \<^verbatim>\<open>extra\<close>, \<^verbatim>\<open>nwo\<close> and a model of the
  caller's.\<close>

definition example_codex :: document where
  "example_codex =
     \<lparr>messages = None,
      members = [''prompt'' \<mapsto> JStr ''func main() {'', ''extra'' \<mapsto> JRaw ''{}'',
                 ''nwo'' \<mapsto> JStr ''snailyp/override'', ''model'' \<mapsto> JStr ''gpt-3.5'']\<rparr>"

text \<open>Upstream answers with status 204 and 304, which have no body, and one with
  status 200.\<close>

definition example_no_content :: response where
  "example_no_content = \<lparr>StatusCode = 204, ContentType = [], Body = []\<rparr>"

definition example_not_modified :: response where
  "example_not_modified = \<lparr>StatusCode = 304, ContentType = [], Body = []\<rparr>"

definition example_ok :: response where
  "example_ok =
     \<lparr>StatusCode = 200, ContentType = ''text/event-stream'', Body = ''data: {}''\<rparr>"

section \<open>Properties of the chat rewrite\<close>

subsection \<open>What each step leaves alone\<close>

lemma members_rewrite_max_tokens:
  "k \<noteq> ''max_tokens'' \<Longrightarrow> members (rewrite_max_tokens cfg b) k = members b k"
  by (simp add: rewrite_max_tokens_def sjson_SetBytes_def)

lemma messages_rewrite_max_tokens: "messages (rewrite_max_tokens cfg b) = messages b"
  by (simp add: rewrite_max_tokens_def sjson_SetBytes_def)

lemma members_rewrite_intent:
  "members (rewrite_intent b) k =
     (if k = ''intent'' \<or> k = ''intent_threshold'' \<or> k = ''intent_content'' then None
      else members b k)"
  by (simp add: rewrite_intent_def sjson_DeleteBytes_def)

lemma messages_rewrite_intent: "messages (rewrite_intent b) = messages b"
  by (simp add: rewrite_intent_def sjson_DeleteBytes_def)

lemma members_rewrite_locale:
  "rewrite_locale cfg b = Inr b' \<Longrightarrow> members b' = members b"
  by (auto simp: rewrite_locale_def sjson_SetBytes_content_def Let_def
           split: if_splits option.splits)

lemma members_rewrite_model:
  "members (rewrite_model cfg b) =
     (members b)(''model'' \<mapsto> JStr (map_model cfg (gjson_String (members b ''model''))))"
  by (simp add: rewrite_model_def sjson_SetBytes_def gjson_GetBytes_def)

lemma messages_rewrite_model: "messages (rewrite_model cfg b) = messages b"
  by (simp add: rewrite_model_def sjson_SetBytes_def)

lemma completions_rewrite_Inr:
  "completions_rewrite cfg b = Inr out \<Longrightarrow>
     \<exists>b'. rewrite_locale cfg (rewrite_model cfg b) = Inr b' \<and>
          out = rewrite_max_tokens cfg (rewrite_intent b')"
  by (auto simp: completions_rewrite_def split: sum.splits)

text \<open>The evaluation of the rewrite on concrete documents unfolds these definitions.\<close>

lemmas rewrite_defs =
  completions_rewrite_def rewrite_locale_def rewrite_model_def rewrite_intent_def
  rewrite_max_tokens_def map_model_def locale_phrase_def locale_suffix_def
  sjson_SetBytes_def sjson_DeleteBytes_def sjson_SetBytes_content_def
  gjson_GetBytes_def gjson_Exists_def gjson_messages_Array_def gjson_Get_def
  example_config_def example_chat_def Let_def

subsection \<open>The model field\<close>

text \<open>
  Claim C1. The model step of the chat rewrite (lines 190 to 197) is defined for every
  document and writes a model field: the entry of the mapping table for the inbound
  model (the inbound field read as a string) when that is a key of the table, the
  configured default otherwise. Every outbound document of the whole rewrite carries
  that same value in its model field.
\<close>

theorem chat_model_resolved:
  "gjson_GetBytes (rewrite_model cfg body) ''model'' =
     Some (JStr (case ChatModelMap cfg (gjson_String (gjson_GetBytes body ''model'')) of
                   Some mapped \<Rightarrow> mapped
                 | None \<Rightarrow> ChatModelDefault cfg)) \<and>
   (completions_rewrite cfg body = Inr out \<longrightarrow>
      gjson_GetBytes out ''model'' =
        Some (JStr (case ChatModelMap cfg (gjson_String (gjson_GetBytes body ''model'')) of
                      Some mapped \<Rightarrow> mapped
                    | None \<Rightarrow> ChatModelDefault cfg)))"
proof (intro conjI impI)
  show step: "gjson_GetBytes (rewrite_model cfg body) ''model'' =
     Some (JStr (case ChatModelMap cfg (gjson_String (gjson_GetBytes body ''model'')) of
                   Some mapped \<Rightarrow> mapped
                 | None \<Rightarrow> ChatModelDefault cfg))"
    by (simp add: gjson_GetBytes_def members_rewrite_model map_model_def)
  assume "completions_rewrite cfg body = Inr out"
  then obtain b' where l: "rewrite_locale cfg (rewrite_model cfg body) = Inr b'"
    and out: "out = rewrite_max_tokens cfg (rewrite_intent b')"
    using completions_rewrite_Inr by blast
  have "members out ''model'' = members (rewrite_model cfg body) ''model''"
    by (simp add: out members_rewrite_max_tokens members_rewrite_intent
          members_rewrite_locale [OF l])
  with step show "gjson_GetBytes out ''model'' =
     Some (JStr (case ChatModelMap cfg (gjson_String (gjson_GetBytes body ''model'')) of
                   Some mapped \<Rightarrow> mapped
                 | None \<Rightarrow> ChatModelDefault cfg))"
    by (simp add: gjson_GetBytes_def)
qed

text \<open>With \<^verbatim>\<open>gpt-4\<close> mapped to \<^verbatim>\<open>deepseek-chat\<close> the example document goes out with
  the mapped model; with the empty table it goes out with the default.\<close>

theorem chat_model_resolved_witness:
  "completions_rewrite (example_config\<lparr>ChatModelMap := [''gpt-4'' \<mapsto> ''deepseek-chat'']\<rparr>)
     example_chat =
     Inr \<lparr>messages = Some [[''content'' \<mapsto> JStr ''hiRespond in the following locale: zh_CN.'']],
          members = [''model'' \<mapsto> JStr ''deepseek-chat'']\<rparr> \<and>
   gjson_GetBytes
     \<lparr>messages = Some [[''content'' \<mapsto> JStr ''hiRespond in the following locale: zh_CN.'']],
      members = [''model'' \<mapsto> JStr ''deepseek-chat'']\<rparr> ''model'' =
     Some (JStr ''deepseek-chat'') \<and>
   completions_rewrite example_config example_chat =
     Inr \<lparr>messages = Some [[''content'' \<mapsto> JStr ''hiRespond in the following locale: zh_CN.'']],
          members = [''model'' \<mapsto> JStr ''deepseek-coder'']\<rparr> \<and>
   gjson_GetBytes
     \<lparr>messages = Some [[''content'' \<mapsto> JStr ''hiRespond in the following locale: zh_CN.'']],
      members = [''model'' \<mapsto> JStr ''deepseek-coder'']\<rparr> ''model'' =
     Some (JStr ''deepseek-coder'')"
proof -
  have a: "completions_rewrite
             (example_config\<lparr>ChatModelMap := [''gpt-4'' \<mapsto> ''deepseek-chat'']\<rparr>)
             example_chat =
     Inr \<lparr>messages = Some [[''content'' \<mapsto> JStr ''hiRespond in the following locale: zh_CN.'']],
          members = [''model'' \<mapsto> JStr ''deepseek-chat'']\<rparr>"
    by (simp add: rewrite_defs)
  have b: "completions_rewrite example_config example_chat =
     Inr \<lparr>messages = Some [[''content'' \<mapsto> JStr ''hiRespond in the following locale: zh_CN.'']],
          members = [''model'' \<mapsto> JStr ''deepseek-coder'']\<rparr>"
    by (simp add: rewrite_defs)
  have a': "gjson_GetBytes
     \<lparr>messages = Some [[''content'' \<mapsto> JStr ''hiRespond in the following locale: zh_CN.'']],
      members = [''model'' \<mapsto> JStr ''deepseek-chat'']\<rparr> ''model'' =
     Some (JStr ''deepseek-chat'')"
    using chat_model_resolved
      [of "example_config\<lparr>ChatModelMap := [''gpt-4'' \<mapsto> ''deepseek-chat'']\<rparr>" example_chat]
      a
    by (simp add: example_config_def example_chat_def gjson_GetBytes_def)
  have b': "gjson_GetBytes
     \<lparr>messages = Some [[''content'' \<mapsto> JStr ''hiRespond in the following locale: zh_CN.'']],
      members = [''model'' \<mapsto> JStr ''deepseek-coder'']\<rparr> ''model'' =
     Some (JStr ''deepseek-coder'')"
    using chat_model_resolved [of example_config example_chat] b
    by (simp add: example_config_def example_chat_def gjson_GetBytes_def)
  from a a' b b' show ?thesis by simp
qed

subsection \<open>The intent fields\<close>

text \<open>
  Claim C9. No outbound chat document has an \<^verbatim>\<open>intent\<close>, \<^verbatim>\<open>intent_threshold\<close> or
  \<^verbatim>\<open>intent_content\<close> field, whatever the inbound document held.
\<close>

theorem chat_intent_removed:
  "completions_rewrite cfg body = Inr out \<Longrightarrow>
     \<not> gjson_Exists (gjson_GetBytes out ''intent'') \<and>
     \<not> gjson_Exists (gjson_GetBytes out ''intent_threshold'') \<and>
     \<not> gjson_Exists (gjson_GetBytes out ''intent_content'')"
proof -
  assume "completions_rewrite cfg body = Inr out"
  then obtain b' where out: "out = rewrite_max_tokens cfg (rewrite_intent b')"
    using completions_rewrite_Inr by blast
  show ?thesis
    by (simp add: out gjson_Exists_def gjson_GetBytes_def members_rewrite_max_tokens
          members_rewrite_intent)
qed

text \<open>A document that carries all three fields goes out without them.\<close>

theorem chat_intent_removed_witness:
  "completions_rewrite example_config
     (example_chat\<lparr>members :=
        [''model'' \<mapsto> JStr ''gpt-4'', ''intent'' \<mapsto> JBool True,
         ''intent_threshold'' \<mapsto> JNum 0, ''intent_content'' \<mapsto> JStr ''fix this'']\<rparr>) =
     Inr \<lparr>messages = Some [[''content'' \<mapsto> JStr ''hiRespond in the following locale: zh_CN.'']],
          members = [''model'' \<mapsto> JStr ''deepseek-coder'']\<rparr> \<and>
   \<not> gjson_Exists (gjson_GetBytes
     \<lparr>messages = Some [[''content'' \<mapsto> JStr ''hiRespond in the following locale: zh_CN.'']],
      members = [''model'' \<mapsto> JStr ''deepseek-coder'']\<rparr> ''intent'') \<and>
   \<not> gjson_Exists (gjson_GetBytes
     \<lparr>messages = Some [[''content'' \<mapsto> JStr ''hiRespond in the following locale: zh_CN.'']],
      members = [''model'' \<mapsto> JStr ''deepseek-coder'']\<rparr> ''intent_threshold'') \<and>
   \<not> gjson_Exists (gjson_GetBytes
     \<lparr>messages = Some [[''content'' \<mapsto> JStr ''hiRespond in the following locale: zh_CN.'']],
      members = [''model'' \<mapsto> JStr ''deepseek-coder'']\<rparr> ''intent_content'')"
proof -
  have e: "completions_rewrite example_config
     (example_chat\<lparr>members :=
        [''model'' \<mapsto> JStr ''gpt-4'', ''intent'' \<mapsto> JBool True,
         ''intent_threshold'' \<mapsto> JNum 0, ''intent_content'' \<mapsto> JStr ''fix this'']\<rparr>) =
     Inr \<lparr>messages = Some [[''content'' \<mapsto> JStr ''hiRespond in the following locale: zh_CN.'']],
          members = [''model'' \<mapsto> JStr ''deepseek-coder'']\<rparr>"
    by (simp add: rewrite_defs fun_eq_iff)
  from chat_intent_removed [OF e] e show ?thesis by simp
qed

subsection \<open>The token ceiling\<close>













subsection \<open>The locale instruction\<close>

lemma strings_Contains_append: "strings_Contains (xs @ sub @ ys) sub"
proof (induction xs)
  case Nil
  show ?case
  proof (cases "sub @ ys")
    case Nil
    then show ?thesis by simp
  next
    case (Cons a l)
    then have "prefix sub (a # l)" by (metis prefixI)
    with Cons show ?thesis by simp
  qed
next
  case (Cons x xs)
  then show ?case by simp
qed

lemma contains_suffix: "strings_Contains (c @ locale_suffix cfg) locale_phrase"
proof -
  have "locale_suffix cfg =
          locale_phrase @ ('': '' @ (if ChatLocale cfg = [] then ''zh_CN'' else ChatLocale cfg) @ ''.'')"
    by (simp add: locale_suffix_def locale_phrase_def)
  then show ?thesis by (simp add: strings_Contains_append)
qed

text \<open>The locale step, case by case, with the last message named.\<close>

lemma rewrite_locale_cases:
  "rewrite_locale cfg b =
     (if members b ''function_call'' \<noteq> None then Inr b
      else case messages b of
             None \<Rightarrow> Inl (IndexOutOfRange (- 1) 0)
           | Some ms \<Rightarrow>
               if ms = [] then Inl (IndexOutOfRange (- 1) 0)
               else if strings_Contains (gjson_String (last ms ''content'')) locale_phrase
                    then Inr b
                    else Inr (b\<lparr>messages := Some (butlast ms @
                           [(last ms)(''content'' \<mapsto>
                              JStr (gjson_String (last ms ''content'') @ locale_suffix cfg))])\<rparr>))"
proof (cases "messages b")
  case None
  then show ?thesis
    by (simp add: rewrite_locale_def gjson_Exists_def gjson_GetBytes_def
          gjson_messages_Array_def)
next
  case (Some ms)
  show ?thesis
  proof (cases "ms = []")
    case True
    with Some show ?thesis
      by (simp add: rewrite_locale_def gjson_Exists_def gjson_GetBytes_def
            gjson_messages_Array_def)
  next
    case False
    then have n: "nat (int (length ms) - 1) = length ms - Suc 0" by simp
    from False have lt: "length ms - Suc 0 < length ms" by (cases ms) simp_all
    from False have nth: "ms ! (length ms - Suc 0) = last ms" by (simp add: last_conv_nth)
    from False have upd: "\<And>x. ms[length ms - Suc 0 := x] = butlast ms @ [x]"
      by (metis One_nat_def append_butlast_last_id length_butlast list_update_length)
    from False have nneg: "\<not> int (length ms) - 1 < 0" by (cases ms) simp_all
    show ?thesis
      using Some False
      by (simp add: rewrite_locale_def gjson_Exists_def gjson_GetBytes_def
            gjson_messages_Array_def gjson_Get_def Let_def sjson_SetBytes_content_def
            n lt nth upd nneg)
  qed
qed

text \<open>The whole rewrite changes \<^verbatim>\<open>messages\<close> only in the locale step, and that step
  sees the inbound \<^verbatim>\<open>function_call\<close> and \<^verbatim>\<open>messages\<close>.\<close>

lemma completions_rewrite_cases:
  "completions_rewrite cfg body =
     (case rewrite_locale cfg (rewrite_model cfg body) of
        Inl p \<Rightarrow> Inl p
      | Inr b \<Rightarrow> Inr (rewrite_max_tokens cfg (rewrite_intent b)))"
  by (simp add: completions_rewrite_def)

lemma function_call_rewrite_model:
  "members (rewrite_model cfg body) ''function_call'' = members body ''function_call''"
  by (simp add: members_rewrite_model)

lemma completions_rewrite_function_call:
  "members body ''function_call'' \<noteq> None \<Longrightarrow>
     completions_rewrite cfg body =
       Inr (rewrite_max_tokens cfg (rewrite_intent (rewrite_model cfg body)))"
  by (simp add: completions_rewrite_cases rewrite_locale_cases function_call_rewrite_model)

lemma completions_rewrite_panic:
  "members body ''function_call'' = None \<Longrightarrow> messages body = None \<or> messages body = Some [] \<Longrightarrow>
     completions_rewrite cfg body = Inl (IndexOutOfRange (- 1) 0)"
  by (auto simp: completions_rewrite_cases rewrite_locale_cases function_call_rewrite_model
        messages_rewrite_model)

lemma completions_rewrite_last:
  "members body ''function_call'' = None \<Longrightarrow> messages body = Some ms \<Longrightarrow> ms \<noteq> [] \<Longrightarrow>
     \<exists>out. completions_rewrite cfg body = Inr out \<and>
       members out ''function_call'' = None \<and>
       messages out =
         (if strings_Contains (gjson_String (last ms ''content'')) locale_phrase
          then Some ms
          else Some (butlast ms @
                 [(last ms)(''content'' \<mapsto>
                    JStr (gjson_String (last ms ''content'') @ locale_suffix cfg))]))"
  by (simp add: completions_rewrite_cases rewrite_locale_cases function_call_rewrite_model
        messages_rewrite_model messages_rewrite_max_tokens messages_rewrite_intent
        members_rewrite_max_tokens members_rewrite_intent)

lemma completions_rewrite_total:
  "(\<exists>out. completions_rewrite cfg body = Inr out) \<longleftrightarrow>
     (members body ''function_call'' \<noteq> None \<or> gjson_messages_Array body \<noteq> [])"
proof (cases "members body ''function_call'' = None")
  case False
  then show ?thesis by (simp add: completions_rewrite_function_call)
next
  case True
  show ?thesis
  proof (cases "messages body = None \<or> messages body = Some []")
    case True
    with \<open>members body ''function_call'' = None\<close> completions_rewrite_panic [of body cfg]
    show ?thesis by (auto simp: gjson_messages_Array_def)
  next
    case False
    then obtain ms where ms: "messages body = Some ms" "ms \<noteq> []" by auto
    from completions_rewrite_last [OF True ms, of cfg] ms True show ?thesis
      by (auto simp: gjson_messages_Array_def)
  qed
qed

text \<open>
  Claim C2. For a document without \<^verbatim>\<open>function_call\<close> whose \<^verbatim>\<open>messages\<close> array is
  not empty: when the content of the last message (read as a string) does not contain
  "Respond in the following locale", the rewrite succeeds and the outbound messages
  are the inbound ones with the content of the last message replaced by that content
  followed by "Respond in the following locale: <locale>.", once, where <locale> is
  the configured locale, or \<^verbatim>\<open>zh_CN\<close> when that is empty; when the content contains
  the phrase the messages go out unchanged. With \<^verbatim>\<open>function_call\<close> present the
  rewrite succeeds and the messages go out unchanged.
\<close>

theorem chat_locale_appended:
  "(\<not> gjson_Exists (gjson_GetBytes body ''function_call'') \<and>
    messages body = Some ms \<and> ms \<noteq> [] \<and>
    \<not> strings_Contains (gjson_String (gjson_Get (last ms) ''content''))
        ''Respond in the following locale'' \<longrightarrow>
      (\<exists>out. completions_rewrite cfg body = Inr out \<and>
         messages out =
           Some (butlast ms @
             [(last ms)(''content'' \<mapsto>
                JStr (gjson_String (gjson_Get (last ms) ''content'') @
                      ''Respond in the following locale: '' @
                      (if ChatLocale cfg = [] then ''zh_CN'' else ChatLocale cfg) @ ''.''))]))) \<and>
   (\<not> gjson_Exists (gjson_GetBytes body ''function_call'') \<and>
    messages body = Some ms \<and> ms \<noteq> [] \<and>
    strings_Contains (gjson_String (gjson_Get (last ms) ''content''))
        ''Respond in the following locale'' \<longrightarrow>
      (\<exists>out. completions_rewrite cfg body = Inr out \<and> messages out = Some ms)) \<and>
   (gjson_Exists (gjson_GetBytes body ''function_call'') \<longrightarrow>
      (\<exists>out. completions_rewrite cfg body = Inr out \<and> messages out = messages body))"
proof (intro conjI impI)
  assume a: "\<not> gjson_Exists (gjson_GetBytes body ''function_call'') \<and>
    messages body = Some ms \<and> ms \<noteq> [] \<and>
    \<not> strings_Contains (gjson_String (gjson_Get (last ms) ''content''))
        ''Respond in the following locale''"
  then have fc: "members body ''function_call'' = None" and ms: "messages body = Some ms" "ms \<noteq> []"
    and nc: "\<not> strings_Contains (gjson_String (last ms ''content'')) locale_phrase"
    by (simp_all add: gjson_Exists_def gjson_GetBytes_def gjson_Get_def locale_phrase_def)
  from completions_rewrite_last [OF fc ms, of cfg] nc
  show "\<exists>out. completions_rewrite cfg body = Inr out \<and>
         messages out =
           Some (butlast ms @
             [(last ms)(''content'' \<mapsto>
                JStr (gjson_String (gjson_Get (last ms) ''content'') @
                      ''Respond in the following locale: '' @
                      (if ChatLocale cfg = [] then ''zh_CN'' else ChatLocale cfg) @ ''.''))])"
    by (auto simp: gjson_Get_def locale_suffix_def)
next
  assume a: "\<not> gjson_Exists (gjson_GetBytes body ''function_call'') \<and>
    messages body = Some ms \<and> ms \<noteq> [] \<and>
    strings_Contains (gjson_String (gjson_Get (last ms) ''content''))
        ''Respond in the following locale''"
  then have fc: "members body ''function_call'' = None" and ms: "messages body = Some ms" "ms \<noteq> []"
    and c: "strings_Contains (gjson_String (last ms ''content'')) locale_phrase"
    by (simp_all add: gjson_Exists_def gjson_GetBytes_def gjson_Get_def locale_phrase_def)
  from completions_rewrite_last [OF fc ms, of cfg] c
  show "\<exists>out. completions_rewrite cfg body = Inr out \<and> messages out = Some ms"
    by auto
next
  assume "gjson_Exists (gjson_GetBytes body ''function_call'')"
  then have "members body ''function_call'' \<noteq> None"
    by (simp add: gjson_Exists_def gjson_GetBytes_def)
  then show "\<exists>out. completions_rewrite cfg body = Inr out \<and> messages out = messages body"
    by (simp add: completions_rewrite_function_call messages_rewrite_max_tokens
          messages_rewrite_intent messages_rewrite_model)
qed

text \<open>The example of the specification: \<^verbatim>\<open>{"model":"gpt-4","messages":[{"content":"hi"}]}\<close>
  goes out with the content "hiRespond in the following locale: zh_CN."; with a
  \<^verbatim>\<open>function_call\<close> the content stays "hi".\<close>

theorem chat_locale_appended_witness:
  "(\<exists>out. completions_rewrite example_config example_chat = Inr out \<and>
      messages out =
        Some [[''content'' \<mapsto> JStr ''hiRespond in the following locale: zh_CN.'']]) \<and>
   (\<exists>out. completions_rewrite example_config
             (example_chat\<lparr>members := [''model'' \<mapsto> JStr ''gpt-4'',
                                       ''function_call'' \<mapsto> JStr ''auto'']\<rparr>) = Inr out \<and>
      messages out = Some [[''content'' \<mapsto> JStr ''hi'']])"
proof -
  have a: "\<not> gjson_Exists (gjson_GetBytes example_chat ''function_call'') \<and>
    messages example_chat = Some [[''content'' \<mapsto> JStr ''hi'']] \<and>
    [[''content'' \<mapsto> JStr ''hi'']] \<noteq> [] \<and>
    \<not> strings_Contains (gjson_String (gjson_Get (last [[''content'' \<mapsto> JStr ''hi'']]) ''content''))
        ''Respond in the following locale''"
    by (simp add: example_chat_def gjson_Exists_def gjson_GetBytes_def gjson_Get_def)
  have b: "gjson_Exists (gjson_GetBytes
             (example_chat\<lparr>members := [''model'' \<mapsto> JStr ''gpt-4'',
                                       ''function_call'' \<mapsto> JStr ''auto'']\<rparr>) ''function_call'')"
    by (simp add: example_chat_def gjson_Exists_def gjson_GetBytes_def)
  from a chat_locale_appended [of example_chat "[[''content'' \<mapsto> JStr ''hi'']]" example_config]
  have "\<exists>out. completions_rewrite example_config example_chat = Inr out \<and>
      messages out =
        Some [[''content'' \<mapsto> JStr ''hiRespond in the following locale: zh_CN.'']]"
    by (simp add: example_config_def gjson_Get_def)
  moreover from b chat_locale_appended
    [of "example_chat\<lparr>members := [''model'' \<mapsto> JStr ''gpt-4'',
                                       ''function_call'' \<mapsto> JStr ''auto'']\<rparr>" _ example_config]
  have "\<exists>out. completions_rewrite example_config
             (example_chat\<lparr>members := [''model'' \<mapsto> JStr ''gpt-4'',
                                       ''function_call'' \<mapsto> JStr ''auto'']\<rparr>) = Inr out \<and>
      messages out = Some [[''content'' \<mapsto> JStr ''hi'']]"
    by (simp add: example_chat_def)
  ultimately show ?thesis by blast
qed

text \<open>
  Claim C8. When the chat rewrite has produced an outbound document, the rewrite
  applied to that document succeeds too and leaves its messages as they are: the second
  pass appends nothing. For a document without \<^verbatim>\<open>function_call\<close> the content of the
  last message after both passes is the inbound content when that already contained
  the phrase, and otherwise the inbound content followed by one locale instruction;
  it is never the inbound content followed by two.
\<close>

theorem chat_locale_idempotent:
  "completions_rewrite cfg body = Inr out1 \<Longrightarrow>
     (\<exists>out2. completions_rewrite cfg out1 = Inr out2 \<and> messages out2 = messages out1 \<and>
        (\<not> gjson_Exists (gjson_GetBytes body ''function_call'') \<longrightarrow>
           gjson_String (gjson_Get (last (gjson_messages_Array out2)) ''content'') =
             (if strings_Contains
                   (gjson_String (gjson_Get (last (gjson_messages_Array body)) ''content''))
                   ''Respond in the following locale''
              then gjson_String (gjson_Get (last (gjson_messages_Array body)) ''content'')
              else gjson_String (gjson_Get (last (gjson_messages_Array body)) ''content'') @
                   locale_suffix cfg) \<and>
           gjson_String (gjson_Get (last (gjson_messages_Array out2)) ''content'') \<noteq>
             gjson_String (gjson_Get (last (gjson_messages_Array body)) ''content'') @
             locale_suffix cfg @ locale_suffix cfg))"
proof (cases "members body ''function_call'' = None")
  case False
  assume r: "completions_rewrite cfg body = Inr out1"
  with False have out1: "out1 = rewrite_max_tokens cfg (rewrite_intent (rewrite_model cfg body))"
    by (simp add: completions_rewrite_function_call)
  then have "members out1 ''function_call'' \<noteq> None"
    using False
    by (simp add: members_rewrite_max_tokens members_rewrite_intent function_call_rewrite_model)
  then have "completions_rewrite cfg out1 =
               Inr (rewrite_max_tokens cfg (rewrite_intent (rewrite_model cfg out1)))"
    by (rule completions_rewrite_function_call)
  with False show ?thesis
    by (simp add: messages_rewrite_max_tokens messages_rewrite_intent messages_rewrite_model
          gjson_Exists_def gjson_GetBytes_def)
next
  case True
  assume r: "completions_rewrite cfg body = Inr out1"
  have ne: "gjson_messages_Array body \<noteq> []"
    using completions_rewrite_total [of cfg body] r True by auto
  then obtain ms where ms: "messages body = Some ms" "ms \<noteq> []"
    by (auto simp: gjson_messages_Array_def split: option.splits)
  let ?c = "gjson_String (last ms ''content'')"
  let ?ms1 = "if strings_Contains ?c locale_phrase then ms
              else butlast ms @ [(last ms)(''content'' \<mapsto> JStr (?c @ locale_suffix cfg))]"
  from completions_rewrite_last [OF True ms, of cfg] r
  have fc1: "members out1 ''function_call'' = None" and m1: "messages out1 = Some ?ms1"
    by auto
  have ne1: "?ms1 \<noteq> []" using ms by simp
  have c1: "gjson_String (last ?ms1 ''content'') =
              (if strings_Contains ?c locale_phrase then ?c else ?c @ locale_suffix cfg)"
    by simp
  have k1: "strings_Contains (gjson_String (last ?ms1 ''content'')) locale_phrase"
    unfolding c1 by (simp add: contains_suffix)
  from completions_rewrite_last [OF fc1 m1 ne1, of cfg] k1
  obtain out2 where o2: "completions_rewrite cfg out1 = Inr out2" "messages out2 = Some ?ms1"
    by auto
  have s: "locale_suffix cfg \<noteq> []" by (simp add: locale_suffix_def)
  have "gjson_String (gjson_Get (last (gjson_messages_Array out2)) ''content'') =
          (if strings_Contains ?c locale_phrase then ?c else ?c @ locale_suffix cfg)"
    using o2(2) c1 by (simp add: gjson_messages_Array_def gjson_Get_def)
  moreover have "(if strings_Contains ?c locale_phrase then ?c else ?c @ locale_suffix cfg) \<noteq>
          ?c @ locale_suffix cfg @ locale_suffix cfg"
    using s by simp
  ultimately show ?thesis
    using o2 m1 ms
    by (simp add: gjson_messages_Array_def gjson_Get_def locale_phrase_def)
qed

text \<open>The example document after one pass and after two: the same content, with one
  locale instruction.\<close>

theorem chat_locale_idempotent_witness:
  "completions_rewrite example_config example_chat =
     Inr \<lparr>messages = Some [[''content'' \<mapsto> JStr ''hiRespond in the following locale: zh_CN.'']],
          members = [''model'' \<mapsto> JStr ''deepseek-coder'']\<rparr> \<and>
   (\<exists>out2. completions_rewrite example_config
       \<lparr>messages = Some [[''content'' \<mapsto> JStr ''hiRespond in the following locale: zh_CN.'']],
        members = [''model'' \<mapsto> JStr ''deepseek-coder'']\<rparr> = Inr out2 \<and>
      messages out2 =
        Some [[''content'' \<mapsto> JStr ''hiRespond in the following locale: zh_CN.'']] \<and>
      gjson_String (gjson_Get (last (gjson_messages_Array out2)) ''content'') =
        ''hiRespond in the following locale: zh_CN.'')"
proof -
  have e: "completions_rewrite example_config example_chat =
     Inr \<lparr>messages = Some [[''content'' \<mapsto> JStr ''hiRespond in the following locale: zh_CN.'']],
          members = [''model'' \<mapsto> JStr ''deepseek-coder'']\<rparr>"
    by (simp add: rewrite_defs)
  have f: "\<not> gjson_Exists (gjson_GetBytes example_chat ''function_call'')"
    by (simp add: example_chat_def gjson_Exists_def gjson_GetBytes_def)
  have g: "gjson_String (gjson_Get (last (gjson_messages_Array example_chat)) ''content'') = ''hi''"
    by (simp add: example_chat_def gjson_messages_Array_def gjson_Get_def)
  have h: "locale_suffix example_config = ''Respond in the following locale: zh_CN.''"
    by (simp add: locale_suffix_def example_config_def)
  from chat_locale_idempotent [OF e] f
  obtain out2 where "completions_rewrite example_config
       \<lparr>messages = Some [[''content'' \<mapsto> JStr ''hiRespond in the following locale: zh_CN.'']],
        members = [''model'' \<mapsto> JStr ''deepseek-coder'']\<rparr> = Inr out2"
    and "messages out2 =
        Some [[''content'' \<mapsto> JStr ''hiRespond in the following locale: zh_CN.'']]"
    and "gjson_String (gjson_Get (last (gjson_messages_Array out2)) ''content'') =
        ''hiRespond in the following locale: zh_CN.''"
    unfolding g h by auto
  with e show ?thesis by blast
qed

section \<open>Properties of the handlers\<close>

subsection \<open>The chat handler and the rewrite\<close>

lemma completions_panics:
  "ReadAll w = Inr body \<Longrightarrow>
     completions cfg w c = Inl p \<longleftrightarrow> completions_rewrite cfg body = Inl p"
  by (simp add: completions_def Let_def split: sum.splits option.splits)

lemma completions_returns:
  "ReadAll w = Inr body \<Longrightarrow>
     (\<exists>out. completions cfg w c = Inr out) \<longleftrightarrow> (\<exists>b. completions_rewrite cfg body = Inr b)"
  by (simp add: completions_def Let_def split: sum.splits option.splits)

text \<open>
  Claim C10. Once the body is read, the chat handler indexes \<^verbatim>\<open>messages\<close> at
  \<open>length - 1\<close> whenever the document has no \<^verbatim>\<open>function_call\<close>, with no check of the
  length. The handler returns exactly when the document has a \<^verbatim>\<open>function_call\<close> field
  or a \<^verbatim>\<open>messages\<close> array that is not empty; for a document with neither (the array
  absent or empty) it panics with index \<open>- 1\<close> out of range for length 0.
\<close>

theorem chat_messages_index_precondition:
  "ReadAll w = Inr body \<Longrightarrow>
     ((\<exists>out. completions cfg w c = Inr out) \<longleftrightarrow>
        (gjson_Exists (gjson_GetBytes body ''function_call'') \<or>
         (\<exists>m ms. messages body = Some (m # ms)))) \<and>
     (completions cfg w c = Inl (IndexOutOfRange (- 1) 0) \<longleftrightarrow>
        (\<not> gjson_Exists (gjson_GetBytes body ''function_call'') \<and>
         (messages body = None \<or> messages body = Some [])))"
proof -
  assume r: "ReadAll w = Inr body"
  have arr: "gjson_messages_Array body \<noteq> [] \<longleftrightarrow> (\<exists>m ms. messages body = Some (m # ms))"
    by (auto simp: gjson_messages_Array_def neq_Nil_conv split: option.splits)
  have arr': "gjson_messages_Array body = [] \<longleftrightarrow> (messages body = None \<or> messages body = Some [])"
    by (auto simp: gjson_messages_Array_def split: option.splits)
  have one: "(\<exists>out. completions cfg w c = Inr out) \<longleftrightarrow>
        (gjson_Exists (gjson_GetBytes body ''function_call'') \<or>
         (\<exists>m ms. messages body = Some (m # ms)))"
    unfolding completions_returns [OF r] completions_rewrite_total arr
    by (simp add: gjson_Exists_def gjson_GetBytes_def)
  have two: "completions cfg w c = Inl (IndexOutOfRange (- 1) 0) \<longleftrightarrow>
        (\<not> gjson_Exists (gjson_GetBytes body ''function_call'') \<and>
         (messages body = None \<or> messages body = Some []))"
  proof
    assume "completions cfg w c = Inl (IndexOutOfRange (- 1) 0)"
    then have "\<not> (\<exists>b. completions_rewrite cfg body = Inr b)"
      unfolding completions_panics [OF r] by simp
    then show "\<not> gjson_Exists (gjson_GetBytes body ''function_call'') \<and>
         (messages body = None \<or> messages body = Some [])"
      unfolding completions_rewrite_total arr' [symmetric]
      by (simp add: gjson_Exists_def gjson_GetBytes_def)
  next
    assume "\<not> gjson_Exists (gjson_GetBytes body ''function_call'') \<and>
         (messages body = None \<or> messages body = Some [])"
    then have "completions_rewrite cfg body = Inl (IndexOutOfRange (- 1) 0)"
      using completions_rewrite_panic [of body cfg]
      by (simp add: gjson_Exists_def gjson_GetBytes_def)
    then show "completions cfg w c = Inl (IndexOutOfRange (- 1) 0)"
      unfolding completions_panics [OF r] .
  qed
  from one two show ?thesis by blast
qed

text \<open>The handler panics on \<^verbatim>\<open>{"model":"gpt-4"}\<close> and on
  \<^verbatim>\<open>{"model":"gpt-4","messages":[]}\<close>, and returns on the example document.\<close>

theorem chat_messages_index_precondition_witness:
  "completions example_config
     (answering (example_chat\<lparr>messages := None\<rparr>)
        (Inr \<lparr>StatusCode = 200, ContentType = ''application/json'', Body = ''{}''\<rparr>))
     new_context = Inl (IndexOutOfRange (- 1) 0) \<and>
   completions example_config
     (answering (example_chat\<lparr>messages := Some []\<rparr>)
        (Inr \<lparr>StatusCode = 200, ContentType = ''application/json'', Body = ''{}''\<rparr>))
     new_context = Inl (IndexOutOfRange (- 1) 0) \<and>
   (\<exists>out. completions example_config
     (answering example_chat
        (Inr \<lparr>StatusCode = 200, ContentType = ''application/json'', Body = ''{}''\<rparr>))
     new_context = Inr out)"
proof -
  let ?r = "Inr \<lparr>StatusCode = 200, ContentType = ''application/json'', Body = ''{}''\<rparr>"
  have a: "ReadAll (answering (example_chat\<lparr>messages := None\<rparr>) ?r) =
             Inr (example_chat\<lparr>messages := None\<rparr>)"
    by (simp add: answering_def)
  have b: "ReadAll (answering (example_chat\<lparr>messages := Some []\<rparr>) ?r) =
             Inr (example_chat\<lparr>messages := Some []\<rparr>)"
    by (simp add: answering_def)
  have c: "ReadAll (answering example_chat ?r) = Inr example_chat"
    by (simp add: answering_def)
  from chat_messages_index_precondition [OF a, of example_config new_context]
  have "completions example_config (answering (example_chat\<lparr>messages := None\<rparr>) ?r)
     new_context = Inl (IndexOutOfRange (- 1) 0)"
    by (simp add: example_chat_def gjson_Exists_def gjson_GetBytes_def)
  moreover from chat_messages_index_precondition [OF b, of example_config new_context]
  have "completions example_config (answering (example_chat\<lparr>messages := Some []\<rparr>) ?r)
     new_context = Inl (IndexOutOfRange (- 1) 0)"
    by (simp add: example_chat_def gjson_Exists_def gjson_GetBytes_def)
  moreover from chat_messages_index_precondition [OF c, of example_config new_context]
  have "\<exists>out. completions example_config (answering example_chat ?r) new_context = Inr out"
    by (simp add: example_chat_def gjson_Exists_def gjson_GetBytes_def)
  ultimately show ?thesis by blast
qed

subsection \<open>The response writers\<close>

lemma abortCodex_status: "status (abortCodex c code) = code"
  by (simp add: abortCodex_def c_Abort_def c_String_def c_Status_def c_Header_def Let_def)

lemma abortCodex_headers:
  "headers (abortCodex c code) ''Content-Type'' = Some ''text/event-stream''"
  by (simp add: abortCodex_def c_Abort_def c_String_def c_Status_def c_Header_def Let_def)

lemma abortCodex_written:
  "written (abortCodex c code) =
     (if bodyAllowedForStatus code then written c @ sentinel else written c)"
  by (simp add: abortCodex_def c_Abort_def c_String_def c_Status_def c_Header_def Let_def)

lemma bodyAllowedForStatus_local:
  "bodyAllowedForStatus 400" "bodyAllowedForStatus 408" "bodyAllowedForStatus 500"
  by (simp_all add: bodyAllowedForStatus_def)

lemma abortCodex_aborted: "aborted (abortCodex c code)"
  by (simp add: abortCodex_def c_Abort_def c_String_def c_Status_def c_Header_def Let_def)

lemmas abortCodex_simps =
  abortCodex_status abortCodex_headers abortCodex_written abortCodex_aborted

lemma c_AbortWithStatus_simps:
  "status (c_AbortWithStatus c code) = code"
  "aborted (c_AbortWithStatus c code)"
  "written (c_AbortWithStatus c code) = written c"
  "headers (c_AbortWithStatus c code) = headers c"
  by (simp_all add: c_AbortWithStatus_def c_Abort_def c_Status_def)

lemmas status_defs =
  StatusOK_def StatusBadRequest_def StatusRequestTimeout_def StatusInternalServerError_def

subsection \<open>The codex document\<close>

lemma members_codeCompletions_rewrite:
  "members (codeCompletions_rewrite body) =
     (members body)(''extra'' := None, ''nwo'' := None, ''model'' \<mapsto> JStr ''deepseek-coder'')"
  by (simp add: codeCompletions_rewrite_def sjson_SetBytes_def sjson_DeleteBytes_def
        InstructModel_def)

lemma sent_codeCompletions:
  "req \<in> set (sent (codeCompletions cfg w c)) \<Longrightarrow>
     \<exists>body. ReadAll w = Inr body \<and> req = codex_request cfg (codeCompletions_rewrite body)"
  by (auto simp: codeCompletions_def Let_def split: if_splits sum.splits option.splits)

text \<open>
  Claim C6. For every inbound codex document the rewritten document has no
  \<^verbatim>\<open>extra\<close> and no \<^verbatim>\<open>nwo\<close> field, and its model field is "deepseek-coder", whatever
  model the caller supplied; and every request the codex handler sends upstream
  carries such a document.
\<close>

theorem codex_document_rewritten:
  "\<not> gjson_Exists (gjson_GetBytes (codeCompletions_rewrite body) ''extra'') \<and>
   \<not> gjson_Exists (gjson_GetBytes (codeCompletions_rewrite body) ''nwo'') \<and>
   gjson_GetBytes (codeCompletions_rewrite body) ''model'' = Some (JStr ''deepseek-coder'') \<and>
   (\<forall>req \<in> set (sent (codeCompletions cfg w c)).
      \<not> gjson_Exists (gjson_GetBytes (req_body req) ''extra'') \<and>
      \<not> gjson_Exists (gjson_GetBytes (req_body req) ''nwo'') \<and>
      gjson_GetBytes (req_body req) ''model'' = Some (JStr ''deepseek-coder''))"
proof -
  have one: "\<And>b. \<not> gjson_Exists (gjson_GetBytes (codeCompletions_rewrite b) ''extra'') \<and>
      \<not> gjson_Exists (gjson_GetBytes (codeCompletions_rewrite b) ''nwo'') \<and>
      gjson_GetBytes (codeCompletions_rewrite b) ''model'' = Some (JStr ''deepseek-coder'')"
    by (simp add: gjson_Exists_def gjson_GetBytes_def members_codeCompletions_rewrite)
  have "\<And>req. req \<in> set (sent (codeCompletions cfg w c)) \<Longrightarrow>
      \<not> gjson_Exists (gjson_GetBytes (req_body req) ''extra'') \<and>
      \<not> gjson_Exists (gjson_GetBytes (req_body req) ''nwo'') \<and>
      gjson_GetBytes (req_body req) ''model'' = Some (JStr ''deepseek-coder'')"
  proof -
    fix req
    assume "req \<in> set (sent (codeCompletions cfg w c))"
    then obtain b where "req = codex_request cfg (codeCompletions_rewrite b)"
      using sent_codeCompletions by blast
    then have "req_body req = codeCompletions_rewrite b" by (simp add: codex_request_def)
    with one [of b] show "\<not> gjson_Exists (gjson_GetBytes (req_body req) ''extra'') \<and>
      \<not> gjson_Exists (gjson_GetBytes (req_body req) ''nwo'') \<and>
      gjson_GetBytes (req_body req) ''model'' = Some (JStr ''deepseek-coder'')"
      by simp
  qed
  with one [of body] show ?thesis by blast
qed

text \<open>The example codex document is sent upstream, and what is sent has the fixed
  model and neither of the two fields the inbound document had.\<close>

theorem codex_document_rewritten_witness:
  "sent (codeCompletions example_config (answering example_codex (Inr example_ok)) new_context) =
     [codex_request example_config (codeCompletions_rewrite example_codex)] \<and>
   gjson_Exists (gjson_GetBytes example_codex ''extra'') \<and>
   gjson_Exists (gjson_GetBytes example_codex ''nwo'') \<and>
   gjson_GetBytes example_codex ''model'' = Some (JStr ''gpt-3.5'') \<and>
   \<not> gjson_Exists (gjson_GetBytes
        (req_body (codex_request example_config (codeCompletions_rewrite example_codex))) ''extra'') \<and>
   \<not> gjson_Exists (gjson_GetBytes
        (req_body (codex_request example_config (codeCompletions_rewrite example_codex))) ''nwo'') \<and>
   gjson_GetBytes
        (req_body (codex_request example_config (codeCompletions_rewrite example_codex))) ''model'' =
     Some (JStr ''deepseek-coder'')"
proof -
  have s: "sent (codeCompletions example_config (answering example_codex (Inr example_ok))
             new_context) =
     [codex_request example_config (codeCompletions_rewrite example_codex)]"
    by (simp add: codeCompletions_def answering_def example_ok_def StatusOK_def Let_def)
  then have "codex_request example_config (codeCompletions_rewrite example_codex) \<in>
      set (sent (codeCompletions example_config (answering example_codex (Inr example_ok))
             new_context))"
    by simp
  with codex_document_rewritten
    [of example_codex example_config "answering example_codex (Inr example_ok)" new_context]
  have "\<not> gjson_Exists (gjson_GetBytes
        (req_body (codex_request example_config (codeCompletions_rewrite example_codex))) ''extra'') \<and>
   \<not> gjson_Exists (gjson_GetBytes
        (req_body (codex_request example_config (codeCompletions_rewrite example_codex))) ''nwo'') \<and>
   gjson_GetBytes
        (req_body (codex_request example_config (codeCompletions_rewrite example_codex))) ''model'' =
     Some (JStr ''deepseek-coder'')"
    by blast
  moreover have "gjson_Exists (gjson_GetBytes example_codex ''extra'') \<and>
   gjson_Exists (gjson_GetBytes example_codex ''nwo'') \<and>
   gjson_GetBytes example_codex ''model'' = Some (JStr ''gpt-3.5'')"
    by (simp add: example_codex_def gjson_Exists_def gjson_GetBytes_def)
  ultimately show ?thesis using s by blast
qed

subsection \<open>The paths of the two handlers\<close>

lemma completions_read_error:
  "ReadAll w = Inl e \<Longrightarrow>
     completions cfg w c =
       Inr \<lparr>gin = c_AbortWithStatus c 400, logs = [], sent = []\<rparr>"
  by (simp add: completions_def status_defs)

lemma completions_build_error:
  "ReadAll w = Inr body \<Longrightarrow> completions_rewrite cfg body = Inr b \<Longrightarrow>
   NewRequestWithContext w (ChatApiBase cfg @ ''/chat/completions'') = Some e \<Longrightarrow>
     completions cfg w c =
       Inr \<lparr>gin = c_AbortWithStatus c 500, logs = [], sent = []\<rparr>"
  by (simp add: completions_def status_defs)

lemma completions_do_error:
  "ReadAll w = Inr body \<Longrightarrow> completions_rewrite cfg body = Inr b \<Longrightarrow>
   NewRequestWithContext w (ChatApiBase cfg @ ''/chat/completions'') = None \<Longrightarrow>
   client_Do w (chat_request cfg b) = Inl e \<Longrightarrow>
     completions cfg w c =
       (if is_Canceled e
        then Inr \<lparr>gin = c_AbortWithStatus c 408, logs = [], sent = [chat_request cfg b]\<rparr>
        else Inr \<lparr>gin = c_AbortWithStatus c 500,
                  logs = [''request conversation failed: '' @ Error e],
                  sent = [chat_request cfg b]\<rparr>)"
  by (simp add: completions_def status_defs)

lemma completions_response:
  "ReadAll w = Inr body \<Longrightarrow> completions_rewrite cfg body = Inr b \<Longrightarrow>
   NewRequestWithContext w (ChatApiBase cfg @ ''/chat/completions'') = None \<Longrightarrow>
   client_Do w (chat_request cfg b) = Inr resp \<Longrightarrow>
     completions cfg w c =
       Inr \<lparr>gin = c\<lparr>status := StatusCode resp,
                    headers := (if ContentType resp = [] then headers c
                                else (headers c)(''Content-Type'' \<mapsto> ContentType resp)),
                    written := (if bodyAllowedForStatus (StatusCode resp)
                                then written c @ Body resp else written c)\<rparr>,
            logs = (if StatusCode resp \<noteq> 200
                    then [''request completions failed: '' @ Body resp] else []),
            sent = [chat_request cfg b]\<rparr>"
  by (simp add: completions_def status_defs Let_def c_Status_def c_Header_def io_Copy_def)

lemma codeCompletions_cancelled:
  "ctx_Err w \<Longrightarrow>
     codeCompletions cfg w c = \<lparr>gin = abortCodex c 408, logs = [], sent = []\<rparr>"
  by (simp add: codeCompletions_def status_defs)

lemma codeCompletions_read_error:
  "\<not> ctx_Err w \<Longrightarrow> ReadAll w = Inl e \<Longrightarrow>
     codeCompletions cfg w c = \<lparr>gin = abortCodex c 400, logs = [], sent = []\<rparr>"
  by (simp add: codeCompletions_def status_defs)

lemma codeCompletions_build_error:
  "\<not> ctx_Err w \<Longrightarrow> ReadAll w = Inr body \<Longrightarrow>
   NewRequestWithContext w (CodexApiBase cfg @ ''/chat/completions'') = Some e \<Longrightarrow>
     codeCompletions cfg w c = \<lparr>gin = abortCodex c 500, logs = [], sent = []\<rparr>"
  by (simp add: codeCompletions_def status_defs)

lemma codeCompletions_do_error:
  "\<not> ctx_Err w \<Longrightarrow> ReadAll w = Inr body \<Longrightarrow>
   NewRequestWithContext w (CodexApiBase cfg @ ''/chat/completions'') = None \<Longrightarrow>
   client_Do w (codex_request cfg (codeCompletions_rewrite body)) = Inl e \<Longrightarrow>
     codeCompletions cfg w c =
       (if is_Canceled e
        then \<lparr>gin = abortCodex c 408, logs = [],
              sent = [codex_request cfg (codeCompletions_rewrite body)]\<rparr>
        else \<lparr>gin = abortCodex c 500,
              logs = [''request completions failed: '' @ Error e],
              sent = [codex_request cfg (codeCompletions_rewrite body)]\<rparr>)"
  by (simp add: codeCompletions_def status_defs)

lemma codeCompletions_not_ok:
  "\<not> ctx_Err w \<Longrightarrow> ReadAll w = Inr body \<Longrightarrow>
   NewRequestWithContext w (CodexApiBase cfg @ ''/chat/completions'') = None \<Longrightarrow>
   client_Do w (codex_request cfg (codeCompletions_rewrite body)) = Inr resp \<Longrightarrow>
   StatusCode resp \<noteq> 200 \<Longrightarrow>
     codeCompletions cfg w c =
       \<lparr>gin = abortCodex c (StatusCode resp),
        logs = [''request completions failed: '' @ Body resp],
        sent = [codex_request cfg (codeCompletions_rewrite body)]\<rparr>"
  by (simp add: codeCompletions_def status_defs)

subsection \<open>An upstream answer that is not 200\<close>

text \<open>The chat handler relays it: the upstream's status, its body (dropped by the
  writer for a status that allows none) and a log line.\<close>

lemma completions_not_ok:
  "ReadAll w = Inr body \<Longrightarrow> completions_rewrite cfg body = Inr b \<Longrightarrow>
   NewRequestWithContext w (ChatApiBase cfg @ ''/chat/completions'') = None \<Longrightarrow>
   client_Do w (chat_request cfg b) = Inr resp \<Longrightarrow> StatusCode resp \<noteq> 200 \<Longrightarrow>
     \<exists>out. completions cfg w c = Inr out \<and>
       status (gin out) = StatusCode resp \<and>
       written (gin out) =
         written c @ (if bodyAllowedForStatus (StatusCode resp) then Body resp else []) \<and>
       logs out = [''request completions failed: '' @ Body resp]"
  by (simp add: completions_response)

text \<open>The codex handler calls \<^verbatim>\<open>abortCodex\<close> with the upstream's status: the sentinel
  is written when that status allows a body.\<close>

lemma codeCompletions_not_ok_sentinel:
  "\<not> ctx_Err w \<Longrightarrow> ReadAll w = Inr body \<Longrightarrow>
   NewRequestWithContext w (CodexApiBase cfg @ ''/chat/completions'') = None \<Longrightarrow>
   client_Do w (codex_request cfg (codeCompletions_rewrite body)) = Inr resp \<Longrightarrow>
   StatusCode resp \<noteq> 200 \<Longrightarrow>
     status (gin (codeCompletions cfg w c)) = StatusCode resp \<and>
     aborted (gin (codeCompletions cfg w c)) \<and>
     written (gin (codeCompletions cfg w c)) =
       written c @
       (if bodyAllowedForStatus (StatusCode resp) then ''data: [DONE]'' @ [CHR 0x0A] else []) \<and>
     logs (codeCompletions cfg w c) = [''request completions failed: '' @ Body resp]"
  by (simp add: codeCompletions_not_ok abortCodex_simps sentinel_def)

text \<open>
  Claim C4. When the upstream answers with a status other than 200, the codex handler
  is to relay that status and replace the body with the sentinel. At an upstream answer
  204 the handler does call \<^verbatim>\<open>abortCodex\<close> with 204 and logs the upstream's body, but
  \<^verbatim>\<open>c.String\<close> writes nothing for a status that allows no body: the caller receives
  204 and an empty body, not the sentinel.
\<close>

theorem codex_no_content_without_sentinel:
  "client_Do (answering example_codex (Inr example_no_content))
     (codex_request example_config (codeCompletions_rewrite example_codex)) =
     Inr example_no_content \<and>
   StatusCode example_no_content \<noteq> 200 \<and>
   gin (codeCompletions example_config
          (answering example_codex (Inr example_no_content)) new_context) =
     abortCodex new_context 204 \<and>
   status (gin (codeCompletions example_config
                  (answering example_codex (Inr example_no_content)) new_context)) = 204 \<and>
   written (gin (codeCompletions example_config
                   (answering example_codex (Inr example_no_content)) new_context)) = [] \<and>
   logs (codeCompletions example_config
           (answering example_codex (Inr example_no_content)) new_context) =
     [''request completions failed: '']"
  by (simp add: codeCompletions_def answering_def example_no_content_def StatusOK_def Let_def
        abortCodex_def c_Abort_def c_String_def c_Status_def c_Header_def
        bodyAllowedForStatus_def new_context_def)

subsection \<open>The failures of the codex handler\<close>

text \<open>Every failure of the codex handler ends in \<^verbatim>\<open>abortCodex\<close>: the context is aborted,
  and the sentinel is written when the status allows a body, as 400, 408 and 500 do.
  A context cancelled during the delay gives 408, and nothing is sent upstream.\<close>

lemma codeCompletions_failure:
  "ctx_Err w \<or> (\<exists>e. ReadAll w = Inl e) \<or>
   (\<exists>body. ReadAll w = Inr body \<and>
      ((\<exists>e. NewRequestWithContext w (CodexApiBase cfg @ ''/chat/completions'') = Some e) \<or>
       (\<exists>e. client_Do w (codex_request cfg (codeCompletions_rewrite body)) = Inl e) \<or>
       (\<exists>resp. client_Do w (codex_request cfg (codeCompletions_rewrite body)) = Inr resp \<and>
          StatusCode resp \<noteq> 200))) \<Longrightarrow>
   aborted (gin (codeCompletions cfg w c)) \<and>
   written (gin (codeCompletions cfg w c)) =
     written c @
     (if bodyAllowedForStatus (status (gin (codeCompletions cfg w c)))
      then ''data: [DONE]'' @ [CHR 0x0A] else []) \<and>
   (ctx_Err w \<or> (\<exists>e. ReadAll w = Inl e) \<or>
    (\<exists>body. ReadAll w = Inr body \<and>
       ((\<exists>e. NewRequestWithContext w (CodexApiBase cfg @ ''/chat/completions'') = Some e) \<or>
        (\<exists>e. client_Do w (codex_request cfg (codeCompletions_rewrite body)) = Inl e))) \<longrightarrow>
      written (gin (codeCompletions cfg w c)) = written c @ ''data: [DONE]'' @ [CHR 0x0A]) \<and>
   (ctx_Err w \<longrightarrow>
      status (gin (codeCompletions cfg w c)) = 408 \<and> sent (codeCompletions cfg w c) = [])"
proof -
  assume f: "ctx_Err w \<or> (\<exists>e. ReadAll w = Inl e) \<or>
   (\<exists>body. ReadAll w = Inr body \<and>
      ((\<exists>e. NewRequestWithContext w (CodexApiBase cfg @ ''/chat/completions'') = Some e) \<or>
       (\<exists>e. client_Do w (codex_request cfg (codeCompletions_rewrite body)) = Inl e) \<or>
       (\<exists>resp. client_Do w (codex_request cfg (codeCompletions_rewrite body)) = Inr resp \<and>
          StatusCode resp \<noteq> 200)))"
  let ?local = "ctx_Err w \<or> (\<exists>e. ReadAll w = Inl e) \<or>
    (\<exists>body. ReadAll w = Inr body \<and>
       ((\<exists>e. NewRequestWithContext w (CodexApiBase cfg @ ''/chat/completions'') = Some e) \<or>
        (\<exists>e. client_Do w (codex_request cfg (codeCompletions_rewrite body)) = Inl e)))"
  have "\<exists>code l s. codeCompletions cfg w c = \<lparr>gin = abortCodex c code, logs = l, sent = s\<rparr> \<and>
          (ctx_Err w \<longrightarrow> code = 408 \<and> s = []) \<and>
          (?local \<longrightarrow> code = 400 \<or> code = 408 \<or> code = 500)"
  proof (cases "ctx_Err w")
    case True
    then show ?thesis by (auto simp: codeCompletions_cancelled)
  next
    case nc: False
    show ?thesis
    proof (cases "ReadAll w")
      case (Inl e)
      with nc show ?thesis by (auto simp: codeCompletions_read_error)
    next
      case (Inr body)
      show ?thesis
      proof (cases "NewRequestWithContext w (CodexApiBase cfg @ ''/chat/completions'')")
        case (Some e)
        with nc Inr show ?thesis by (auto simp: codeCompletions_build_error)
      next
        case None
        show ?thesis
        proof (cases "client_Do w (codex_request cfg (codeCompletions_rewrite body))")
          case (Inl e)
          with nc Inr None show ?thesis by (auto simp: codeCompletions_do_error)
        next
          case r: (Inr resp)
          with f nc Inr None have "StatusCode resp \<noteq> 200" by auto
          with nc Inr None r show ?thesis by (auto simp: codeCompletions_not_ok)
        qed
      qed
    qed
  qed
  then obtain code l s where o:
    "codeCompletions cfg w c = \<lparr>gin = abortCodex c code, logs = l, sent = s\<rparr>"
    "ctx_Err w \<longrightarrow> code = 408 \<and> s = []"
    "?local \<longrightarrow> code = 400 \<or> code = 408 \<or> code = 500"
    by blast
  have a: "?local \<longrightarrow> bodyAllowedForStatus code"
    using o(3) bodyAllowedForStatus_local by blast
  have "aborted (gin (codeCompletions cfg w c))"
    and "written (gin (codeCompletions cfg w c)) =
     written c @
     (if bodyAllowedForStatus (status (gin (codeCompletions cfg w c)))
      then ''data: [DONE]'' @ [CHR 0x0A] else [])"
    and "?local \<longrightarrow>
      written (gin (codeCompletions cfg w c)) = written c @ ''data: [DONE]'' @ [CHR 0x0A]"
    and "ctx_Err w \<longrightarrow>
      status (gin (codeCompletions cfg w c)) = 408 \<and> sent (codeCompletions cfg w c) = []"
    using o(2) a by (simp_all add: o(1) abortCodex_simps sentinel_def)
  then show ?thesis by blast
qed

text \<open>
  Claim C5. Every failure response of the codex handler is to carry the sentinel
  "data: [DONE]" and a newline as its body. At an upstream answer 304, a failure of
  the kind "upstream not 200", the handler calls \<^verbatim>\<open>abortCodex\<close> with 304 and aborts,
  but \<^verbatim>\<open>c.String\<close> writes nothing for a status that allows no body: the body of the
  response is empty.
\<close>

theorem codex_not_modified_without_sentinel:
  "client_Do (answering example_codex (Inr example_not_modified))
     (codex_request example_config (codeCompletions_rewrite example_codex)) =
     Inr example_not_modified \<and>
   StatusCode example_not_modified \<noteq> 200 \<and>
   gin (codeCompletions example_config
          (answering example_codex (Inr example_not_modified)) new_context) =
     abortCodex new_context 304 \<and>
   aborted (gin (codeCompletions example_config
                   (answering example_codex (Inr example_not_modified)) new_context)) \<and>
   written (gin (codeCompletions example_config
                   (answering example_codex (Inr example_not_modified)) new_context)) = []"
  by (simp add: codeCompletions_def answering_def example_not_modified_def StatusOK_def Let_def
        abortCodex_def c_Abort_def c_String_def c_Status_def c_Header_def
        bodyAllowedForStatus_def new_context_def)

subsection \<open>The status of each failure\<close>

text \<open>
  Claim C7. In both handlers: a body that cannot be read gives 400; an outbound request
  that cannot be built gives 500; an upstream call whose error is
  \<^verbatim>\<open>context.Canceled\<close> gives 408; any other error of the upstream call gives 500
  and is logged with its text.
\<close>

theorem failure_statuses:
  "(ReadAll w = Inl e \<longrightarrow>
      (\<exists>out. completions cfg w c = Inr out \<and> status (gin out) = 400)) \<and>
   (ReadAll w = Inr body \<and> completions_rewrite cfg body = Inr b \<and>
    NewRequestWithContext w (ChatApiBase cfg @ ''/chat/completions'') = Some e \<longrightarrow>
      (\<exists>out. completions cfg w c = Inr out \<and> status (gin out) = 500)) \<and>
   (ReadAll w = Inr body \<and> completions_rewrite cfg body = Inr b \<and>
    NewRequestWithContext w (ChatApiBase cfg @ ''/chat/completions'') = None \<and>
    client_Do w (chat_request cfg b) = Inl e \<and> is_Canceled e \<longrightarrow>
      (\<exists>out. completions cfg w c = Inr out \<and> status (gin out) = 408)) \<and>
   (ReadAll w = Inr body \<and> completions_rewrite cfg body = Inr b \<and>
    NewRequestWithContext w (ChatApiBase cfg @ ''/chat/completions'') = None \<and>
    client_Do w (chat_request cfg b) = Inl e \<and> \<not> is_Canceled e \<longrightarrow>
      (\<exists>out. completions cfg w c = Inr out \<and> status (gin out) = 500 \<and>
         logs out = [''request conversation failed: '' @ Error e])) \<and>
   (\<not> ctx_Err w \<and> ReadAll w = Inl e \<longrightarrow>
      status (gin (codeCompletions cfg w c)) = 400) \<and>
   (\<not> ctx_Err w \<and> ReadAll w = Inr body \<and>
    NewRequestWithContext w (CodexApiBase cfg @ ''/chat/completions'') = Some e \<longrightarrow>
      status (gin (codeCompletions cfg w c)) = 500) \<and>
   (\<not> ctx_Err w \<and> ReadAll w = Inr body \<and>
    NewRequestWithContext w (CodexApiBase cfg @ ''/chat/completions'') = None \<and>
    client_Do w (codex_request cfg (codeCompletions_rewrite body)) = Inl e \<and> is_Canceled e \<longrightarrow>
      status (gin (codeCompletions cfg w c)) = 408) \<and>
   (\<not> ctx_Err w \<and> ReadAll w = Inr body \<and>
    NewRequestWithContext w (CodexApiBase cfg @ ''/chat/completions'') = None \<and>
    client_Do w (codex_request cfg (codeCompletions_rewrite body)) = Inl e \<and>
    \<not> is_Canceled e \<longrightarrow>
      status (gin (codeCompletions cfg w c)) = 500 \<and>
      logs (codeCompletions cfg w c) = [''request completions failed: '' @ Error e])"
proof -
  have h1: "ReadAll w = Inl e \<longrightarrow>
      (\<exists>out. completions cfg w c = Inr out \<and> status (gin out) = 400)"
    by (simp add: completions_read_error c_AbortWithStatus_simps)
  have h2: "ReadAll w = Inr body \<and> completions_rewrite cfg body = Inr b \<and>
    NewRequestWithContext w (ChatApiBase cfg @ ''/chat/completions'') = Some e \<longrightarrow>
      (\<exists>out. completions cfg w c = Inr out \<and> status (gin out) = 500)"
    by (simp add: completions_build_error c_AbortWithStatus_simps)
  have h3: "ReadAll w = Inr body \<and> completions_rewrite cfg body = Inr b \<and>
    NewRequestWithContext w (ChatApiBase cfg @ ''/chat/completions'') = None \<and>
    client_Do w (chat_request cfg b) = Inl e \<and> is_Canceled e \<longrightarrow>
      (\<exists>out. completions cfg w c = Inr out \<and> status (gin out) = 408)"
    by (simp add: completions_do_error c_AbortWithStatus_simps)
  have h4: "ReadAll w = Inr body \<and> completions_rewrite cfg body = Inr b \<and>
    NewRequestWithContext w (ChatApiBase cfg @ ''/chat/completions'') = None \<and>
    client_Do w (chat_request cfg b) = Inl e \<and> \<not> is_Canceled e \<longrightarrow>
      (\<exists>out. completions cfg w c = Inr out \<and> status (gin out) = 500 \<and>
         logs out = [''request conversation failed: '' @ Error e])"
    by (simp add: completions_do_error c_AbortWithStatus_simps)
  have h5: "\<not> ctx_Err w \<and> ReadAll w = Inl e \<longrightarrow>
      status (gin (codeCompletions cfg w c)) = 400"
    by (simp add: codeCompletions_read_error abortCodex_simps)
  have h6: "\<not> ctx_Err w \<and> ReadAll w = Inr body \<and>
    NewRequestWithContext w (CodexApiBase cfg @ ''/chat/completions'') = Some e \<longrightarrow>
      status (gin (codeCompletions cfg w c)) = 500"
    by (simp add: codeCompletions_build_error abortCodex_simps)
  have h7: "\<not> ctx_Err w \<and> ReadAll w = Inr body \<and>
    NewRequestWithContext w (CodexApiBase cfg @ ''/chat/completions'') = None \<and>
    client_Do w (codex_request cfg (codeCompletions_rewrite body)) = Inl e \<and> is_Canceled e \<longrightarrow>
      status (gin (codeCompletions cfg w c)) = 408"
    by (simp add: codeCompletions_do_error abortCodex_simps)
  have h8: "\<not> ctx_Err w \<and> ReadAll w = Inr body \<and>
    NewRequestWithContext w (CodexApiBase cfg @ ''/chat/completions'') = None \<and>
    client_Do w (codex_request cfg (codeCompletions_rewrite body)) = Inl e \<and>
    \<not> is_Canceled e \<longrightarrow>
      status (gin (codeCompletions cfg w c)) = 500 \<and>
      logs (codeCompletions cfg w c) = [''request completions failed: '' @ Error e]"
    by (simp add: codeCompletions_do_error abortCodex_simps)
  show ?thesis
    by (intro conjI) (fact h1 h2 h3 h4 h5 h6 h7 h8)+
qed

text \<open>Both handlers on an unreadable body, and on an upstream call that fails with
  "connection refused".\<close>

theorem failure_statuses_witness:
  "(\<exists>out. completions example_config
       ((answering example_chat (Inr example_ok))
          \<lparr>ReadAll := Inl \<lparr>is_Canceled = False, Error = ''unexpected EOF''\<rparr>\<rparr>)
       new_context = Inr out \<and> status (gin out) = 400) \<and>
   status (gin (codeCompletions example_config
       ((answering example_codex (Inr example_ok))
          \<lparr>ReadAll := Inl \<lparr>is_Canceled = False, Error = ''unexpected EOF''\<rparr>\<rparr>)
       new_context)) = 400 \<and>
   status (gin (codeCompletions example_config
       (answering example_codex (Inl \<lparr>is_Canceled = False, Error = ''connection refused''\<rparr>))
       new_context)) = 500 \<and>
   logs (codeCompletions example_config
       (answering example_codex (Inl \<lparr>is_Canceled = False, Error = ''connection refused''\<rparr>))
       new_context) = [''request completions failed: connection refused''] \<and>
   status (gin (codeCompletions example_config
       (answering example_codex (Inl \<lparr>is_Canceled = True, Error = ''context canceled''\<rparr>))
       new_context)) = 408"
proof -
  let ?eof = "\<lparr>is_Canceled = False, Error = ''unexpected EOF''\<rparr>"
  let ?refused = "\<lparr>is_Canceled = False, Error = ''connection refused''\<rparr>"
  let ?canceled = "\<lparr>is_Canceled = True, Error = ''context canceled''\<rparr>"
  from failure_statuses
    [of "(answering example_chat (Inr example_ok))\<lparr>ReadAll := Inl ?eof\<rparr>" ?eof
        example_config new_context]
  have a: "\<exists>out. completions example_config
       ((answering example_chat (Inr example_ok))\<lparr>ReadAll := Inl ?eof\<rparr>)
       new_context = Inr out \<and> status (gin out) = 400"
    by simp
  from failure_statuses
    [of "(answering example_codex (Inr example_ok))\<lparr>ReadAll := Inl ?eof\<rparr>" ?eof
        example_config new_context]
  have b: "status (gin (codeCompletions example_config
       ((answering example_codex (Inr example_ok))\<lparr>ReadAll := Inl ?eof\<rparr>)
       new_context)) = 400"
    by (simp add: answering_def)
  from failure_statuses
    [of "answering example_codex (Inl ?refused)" ?refused example_config new_context
        example_codex]
  have c: "status (gin (codeCompletions example_config
       (answering example_codex (Inl ?refused)) new_context)) = 500 \<and>
     logs (codeCompletions example_config
       (answering example_codex (Inl ?refused)) new_context) =
       [''request completions failed: connection refused'']"
    by (simp add: answering_def)
  from failure_statuses
    [of "answering example_codex (Inl ?canceled)" ?canceled example_config new_context
        example_codex]
  have d: "status (gin (codeCompletions example_config
       (answering example_codex (Inl ?canceled)) new_context)) = 408"
    by (simp add: answering_def)
  from a b c d show ?thesis by simp
qed

end
